theory Spec2Isabelle
  imports Complex_Main "HOL-Library.AList" "HOL-Library.Multiset" "HOL-Library.Log_Nat"
begin

section \<open>Data model\<close>

text \<open>
  The TypeScript type \<open>number\<close> is an IEEE-754 double. Where the code computes with numbers
  (the price and the average rating) they are values of the type \<open>number\<close> below, and the
  operators \<open>*\<close>, \<open>+\<close> and \<open>/\<close> of the source are \<open>jsMul\<close>, \<open>jsAdd\<close> and \<open>jsDiv\<close>, which round
  to the nearest double, ties to even. Where the code only copies or compares numbers that
  come from outside (coordinates, the distances returned by the position service, the
  requested count) they are the reals that the doubles denote; of the comparator's
  difference \<open>a.distance - b.distance\<close> only the sign is used, and the difference of two
  doubles has the sign of the difference of the reals they denote.
\<close>

subsection \<open>Doubles\<close>

text \<open>
  A finite double other than \<open>-0\<close> is \<open>Fin q\<close> with \<open>q\<close> its exact value, so \<open>Fin 0\<close> is \<open>+0\<close>.
\<close>

datatype number = NaN | PosInfinity | NegInfinity | NegZero | Fin rat

fun negative :: "number \<Rightarrow> bool" where
  "negative NegInfinity = True"
| "negative NegZero = True"
| "negative (Fin q) = (q < 0)"
| "negative _ = False"

fun isZero :: "number \<Rightarrow> bool" where
  "isZero NegZero = True"
| "isZero (Fin q) = (q = 0)"
| "isZero _ = False"

fun isInfinite :: "number \<Rightarrow> bool" where
  "isInfinite PosInfinity = True"
| "isInfinite NegInfinity = True"
| "isInfinite _ = False"

fun valueOf :: "number \<Rightarrow> rat" where
  "valueOf (Fin q) = q"
| "valueOf _ = 0"

definition signedZero :: "bool \<Rightarrow> number" where
  "signedZero neg = (if neg then NegZero else Fin 0)"

definition signedInfinity :: "bool \<Rightarrow> number" where
  "signedInfinity neg = (if neg then NegInfinity else PosInfinity)"

text \<open>The integer part of the binary logarithm of \<open>p / d\<close>, for positive \<open>p\<close> and \<open>d\<close>.\<close>

definition floorLog2 :: "int \<Rightarrow> int \<Rightarrow> int" where
  "floorLog2 p d =
     (let k = bitlen p - bitlen d
      in if (if 0 \<le> k then d * 2 ^ nat k \<le> p else d \<le> p * 2 ^ nat (- k)) then k else k - 1)"

text \<open>\<open>n / d\<close> rounded to the nearest integer, a tie going to the even one (\<open>n \<ge> 0\<close>, \<open>d > 0\<close>).\<close>

definition roundHalfEven :: "int \<Rightarrow> int \<Rightarrow> int" where
  "roundHalfEven n d =
     (let f = n div d; r = n mod d
      in if 2 * r < d then f else if d < 2 * r then f + 1 else if even f then f else f + 1)"

text \<open>
  The double nearest to an exact result \<open>q\<close>: 53 significant bits, exponents from \<open>-1022\<close>
  (below it the spacing stays \<open>2^-1074\<close>: subnormal numbers), overflow to an infinity from
  \<open>2^1024\<close> on, and a zero that keeps the sign of \<open>q\<close> when a nonzero \<open>q\<close> rounds to zero.
\<close>

definition roundToDouble :: "rat \<Rightarrow> number" where
  "roundToDouble q =
     (case quotient_of q of (p0, d) \<Rightarrow>
        let p = \<bar>p0\<bar>; neg = (p0 < 0)
        in if p = 0 then Fin 0
           else
             let e = max (floorLog2 p d) (- 1022);
                 s = e - 52;
                 m = (if 0 \<le> s then roundHalfEven p (d * 2 ^ nat s)
                      else roundHalfEven (p * 2 ^ nat (- s)) d)
             in if m = 0 then signedZero neg
                else if 0 \<le> s \<and> 2 ^ 1024 \<le> m * 2 ^ nat s then signedInfinity neg
                else Fin ((if neg then - 1 else 1) *
                          (if 0 \<le> s then of_int (m * 2 ^ nat s)
                           else of_int m / of_int (2 ^ nat (- s)))))"

text \<open>The operator \<open>*\<close> on numbers.\<close>

definition jsMul :: "number \<Rightarrow> number \<Rightarrow> number" where
  "jsMul x y =
     (if x = NaN \<or> y = NaN then NaN
      else if isInfinite x \<or> isInfinite y
        then (if isZero x \<or> isZero y then NaN else signedInfinity (negative x \<noteq> negative y))
      else if isZero x \<or> isZero y then signedZero (negative x \<noteq> negative y)
      else roundToDouble (valueOf x * valueOf y))"

text \<open>The operator \<open>+\<close> on numbers.\<close>

definition jsAdd :: "number \<Rightarrow> number \<Rightarrow> number" where
  "jsAdd x y =
     (if x = NaN \<or> y = NaN then NaN
      else if isInfinite x then (if isInfinite y \<and> negative x \<noteq> negative y then NaN else x)
      else if isInfinite y then y
      else if isZero x \<and> isZero y then signedZero (negative x \<and> negative y)
      else roundToDouble (valueOf x + valueOf y))"

text \<open>The operator \<open>/\<close> on numbers.\<close>

definition jsDiv :: "number \<Rightarrow> number \<Rightarrow> number" where
  "jsDiv x y =
     (if x = NaN \<or> y = NaN then NaN
      else if isInfinite x
        then (if isInfinite y then NaN else signedInfinity (negative x \<noteq> negative y))
      else if isInfinite y then signedZero (negative x \<noteq> negative y)
      else if isZero y
        then (if isZero x then NaN else signedInfinity (negative x \<noteq> negative y))
      else if isZero x then signedZero (negative x \<noteq> negative y)
      else roundToDouble (valueOf x / valueOf y))"

text \<open>The length of an array as a number; lengths are below \<open>2^32\<close> and therefore exact.\<close>

definition lengthNumber :: "'a list \<Rightarrow> number" where
  "lengthNumber xs = Fin (of_nat (length xs))"

subsection \<open>Records\<close>

record Position =
  latitude :: real
  longitude :: real

text \<open>
  A \<open>Vehicle\<close> carries \<open>latitude\<close> and \<open>longitude\<close> itself (\<open>finishRide\<close> assigns them),
  which is why the source can hand a vehicle to \<open>calculateDistance\<close> as a position.
  The other fields are the ones the two services read or write.
\<close>

record Vehicle = Position +
  uuid :: string
  brand :: string
  firstName :: string
  lastName :: string
  pricePerKM :: number
  startPrice :: number
  booked :: bool

text \<open>
  Of a \<open>VehicleReviewDto\<close> the matching loop reads the field \<open>rate\<close> only. The type is not
  among the sources; a review that has not been completed has no rate, so the field may be
  absent (\<open>None\<close>, the \<open>undefined\<close> of the source).
\<close>

record VehicleReviewDto =
  rate :: "number option"

record VehicleOffer =
  vehicle :: Vehicle
  distanceToDriver :: real
  price :: number
  reviews :: "VehicleReviewDto list"
  averageRating :: number

text \<open>The object literal \<open>{ vehicle, distance }\<close> built by the \<open>map\<close> of \<open>findClosestVehicles\<close>.\<close>

record VehicleDistance =
  vd_vehicle :: Vehicle
  distance :: real

text \<open>
  A stored review document. \<open>rate\<close> and \<open>comment\<close> are optional in the source
  (\<open>review.rate != null\<close> is tested before they are copied).
\<close>

record Review =
  review_uuid :: string
  review_email :: string
  review_vehicleId :: string
  review_dateOfRide :: int
  review_price :: real
  review_completed :: bool
  review_rate :: "real option"
  review_comment :: "string option"

text \<open>An awaited call on a store can reject; the rejection reaches the caller.\<close>

datatype error = StorageFailure

section \<open>Matching: \<open>findClosestVehicles\<close>\<close>

text \<open>
  \<open>Array.prototype.sort\<close> with a comparator: the sort is stable, and the element \<open>a\<close> goes
  before \<open>b\<close> when the comparator is negative. Insertion from the right end keeps equal
  elements in their input order.
\<close>

fun insertBy :: "('a \<Rightarrow> 'a \<Rightarrow> real) \<Rightarrow> 'a \<Rightarrow> 'a list \<Rightarrow> 'a list" where
  "insertBy cmp x [] = [x]"
| "insertBy cmp x (y # ys) =
     (if cmp x y \<le> 0 then x # y # ys else y # insertBy cmp x ys)"

definition array_sort :: "('a \<Rightarrow> 'a \<Rightarrow> real) \<Rightarrow> 'a list \<Rightarrow> 'a list" where
  "array_sort cmp xs = foldr (insertBy cmp) xs []"

text \<open>
  The right operand of \<open>score += review.rate\<close>: the rate, or \<open>NaN\<close> for an absent one (the
  numeric value of \<open>undefined\<close>).
\<close>

definition rateOperand :: "VehicleReviewDto \<Rightarrow> number" where
  "rateOperand review = (case rate review of None \<Rightarrow> NaN | Some x \<Rightarrow> x)"

text \<open>
  Lines 92 to 101: the score is summed over the reviews, from 0 and in their order, and
  divided by \<open>reviews.length\<close> when that is positive.
\<close>

definition averageRatingOf :: "VehicleReviewDto list \<Rightarrow> number" where
  "averageRatingOf rs =
     (let score = foldl (\<lambda>score review. jsAdd score (rateOperand review)) (Fin 0) rs
      in if length rs > 0 then jsDiv score (lengthNumber rs) else Fin 0)"

text \<open>Lines 103 to 113: the offer pushed for a vehicle that is not booked.\<close>

definition pushedOffer :: "number \<Rightarrow> VehicleDistance \<Rightarrow> VehicleReviewDto list \<Rightarrow> VehicleOffer" where
  "pushedOffer distanceToDestination vehicleDistance rs =
     \<lparr> vehicle = vd_vehicle vehicleDistance,
       distanceToDriver = distance vehicleDistance,
       price = jsAdd (jsMul distanceToDestination (pricePerKM (vd_vehicle vehicleDistance)))
                     (startPrice (vd_vehicle vehicleDistance)),
       reviews = rs,
       averageRating = averageRatingOf rs \<rparr>"

text \<open>
  The \<open>for ... of\<close> loop over the sorted distances. \<open>closestVehicles\<close> is the array built so
  far; \<open>continue\<close> is the recursive call on the rest, \<open>break\<close> returns the array.
  \<open>getVehicleReviews\<close> belongs to the review service and is a parameter here; when the
  awaited call rejects, the whole call rejects.
\<close>

fun closestLoop ::
  "(string \<Rightarrow> error + VehicleReviewDto list) \<Rightarrow> real \<Rightarrow> number \<Rightarrow>
   VehicleDistance list \<Rightarrow> VehicleOffer list \<Rightarrow> error + VehicleOffer list" where
  "closestLoop getVehicleReviews count' distanceToDestination [] closestVehicles =
     Inr closestVehicles"
| "closestLoop getVehicleReviews count' distanceToDestination (vehicleDistance # rest) closestVehicles =
     (if booked (vd_vehicle vehicleDistance)
      then closestLoop getVehicleReviews count' distanceToDestination rest closestVehicles
      else case getVehicleReviews (uuid (vd_vehicle vehicleDistance)) of
        Inl e \<Rightarrow> Inl e
      | Inr rs \<Rightarrow>
          let pushed = closestVehicles @ [pushedOffer distanceToDestination vehicleDistance rs]
          in if real (length pushed) = count' then Inr pushed
             else closestLoop getVehicleReviews count' distanceToDestination rest pushed)"

text \<open>\<open>calculateDistance\<close> belongs to the position service and is a parameter.\<close>

definition findClosestVehicles ::
  "(Position \<Rightarrow> Vehicle \<Rightarrow> real) \<Rightarrow> (string \<Rightarrow> error + VehicleReviewDto list) \<Rightarrow>
   Position \<Rightarrow> Vehicle list \<Rightarrow> real \<Rightarrow> number \<Rightarrow> error + VehicleOffer list" where
  "findClosestVehicles calculateDistance getVehicleReviews userPosition vehicles count'
       distanceToDestination =
     (let vehicleDistances =
            map (\<lambda>v. \<lparr> vd_vehicle = v, distance = calculateDistance userPosition v \<rparr>) vehicles;
          sortedDistances = array_sort (\<lambda>a b. distance a - distance b) vehicleDistances
      in closestLoop getVehicleReviews count' distanceToDestination sortedDistances [])"

section \<open>Vehicle registry: cache and storage\<close>

text \<open>
  Modelled from the spec: the class \<open>CacheService\<close> (imported from \<open>../../cache\<close>) is not
  among the sources. Section 4.2 describes it as a mapping from vehicle identifier to vehicle
  with a sentinel state that tells "never loaded" from "loaded with zero vehicles": \<open>None\<close>
  is the sentinel here, and the entries are kept in the order they were first stored. The
  methods carry the prefix \<open>cache_\<close>.
\<close>

type_synonym CacheService = "(string \<times> Vehicle) list option"

text \<open>Modelled from the spec: the records held; a cache never loaded holds none.\<close>

definition cache_entries :: "CacheService \<Rightarrow> (string \<times> Vehicle) list" where
  "cache_entries c = (case c of None \<Rightarrow> [] | Some es \<Rightarrow> es)"

text \<open>
  Modelled from the spec: \<open>isEmpty\<close> is "true iff the cache has never been populated
  (distinct from populated with zero entries)".
\<close>

definition cache_isEmpty :: "CacheService \<Rightarrow> bool" where
  "cache_isEmpty c = (c = None)"

text \<open>
  Modelled from the spec: \<open>addAll\<close> "bulk-loads records, transitions state to loaded even if
  the input set is empty".
\<close>

definition cache_addAll :: "Vehicle list \<Rightarrow> CacheService \<Rightarrow> CacheService" where
  "cache_addAll vs c = Some (fold (\<lambda>v es. AList.update (uuid v) v es) vs (cache_entries c))"

text \<open>
  Modelled from the spec: \<open>getAll\<close> "returns the current loaded set; undefined/empty if never
  loaded" (empty here).
\<close>

definition cache_getAll :: "CacheService \<Rightarrow> Vehicle list" where
  "cache_getAll c = map snd (cache_entries c)"

text \<open>Modelled from the spec: \<open>get\<close> is a "point lookup", a vehicle or not found.\<close>

definition cache_get :: "string \<Rightarrow> CacheService \<Rightarrow> Vehicle option" where
  "cache_get k c = map_of (cache_entries c) k"

text \<open>
  Modelled from the spec: \<open>set\<close> is an "upsert [of] a single record", keyed by its identifier.
  A cache that holds a record counts as populated.
\<close>

definition cache_set :: "Vehicle \<Rightarrow> CacheService \<Rightarrow> CacheService" where
  "cache_set v c = Some (AList.update (uuid v) v (cache_entries c))"

text \<open>
  The vehicle collection behind \<open>vehicleModel\<close>: its documents, and whether the store answers.
  \<open>updateOne\<close> rewrites the first document that matches the filter and inserts nothing.
\<close>

record VehicleModel =
  documents :: "Vehicle list"
  reachable :: bool

fun updateFirst :: "string \<Rightarrow> Vehicle \<Rightarrow> Vehicle list \<Rightarrow> Vehicle list" where
  "updateFirst k v [] = []"
| "updateFirst k v (x # xs) = (if uuid x = k then v # xs else x # updateFirst k v xs)"

text \<open>Every call the service makes on one of its two collaborators, in the order made.\<close>

datatype Call =
    CacheIsEmpty
  | CacheAddAll "Vehicle list"
  | CacheGetAll
  | CacheGet string
  | CacheSet Vehicle
  | ModelFind
  | ModelFindOne string
  | ModelUpdateOne string Vehicle

record Registry =
  cacheService :: CacheService
  vehicleModel :: VehicleModel
  calls :: "Call list"

definition cacheService_isEmpty :: "Registry \<Rightarrow> bool \<times> Registry" where
  "cacheService_isEmpty s =
     (cache_isEmpty (cacheService s), s\<lparr> calls := calls s @ [CacheIsEmpty] \<rparr>)"

definition cacheService_addAll :: "Vehicle list \<Rightarrow> Registry \<Rightarrow> Registry" where
  "cacheService_addAll vs s =
     s\<lparr> cacheService := cache_addAll vs (cacheService s), calls := calls s @ [CacheAddAll vs] \<rparr>"

definition cacheService_getAll :: "Registry \<Rightarrow> Vehicle list \<times> Registry" where
  "cacheService_getAll s =
     (cache_getAll (cacheService s), s\<lparr> calls := calls s @ [CacheGetAll] \<rparr>)"

definition cacheService_get :: "string \<Rightarrow> Registry \<Rightarrow> Vehicle option \<times> Registry" where
  "cacheService_get k s =
     (cache_get k (cacheService s), s\<lparr> calls := calls s @ [CacheGet k] \<rparr>)"

definition cacheService_set :: "Vehicle \<Rightarrow> Registry \<Rightarrow> Registry" where
  "cacheService_set v s =
     s\<lparr> cacheService := cache_set v (cacheService s), calls := calls s @ [CacheSet v] \<rparr>"

definition vehicleModel_find :: "Registry \<Rightarrow> (error + Vehicle list) \<times> Registry" where
  "vehicleModel_find s =
     ((if reachable (vehicleModel s) then Inr (documents (vehicleModel s)) else Inl StorageFailure),
      s\<lparr> calls := calls s @ [ModelFind] \<rparr>)"

definition vehicleModel_findOne :: "string \<Rightarrow> Registry \<Rightarrow> (error + Vehicle option) \<times> Registry" where
  "vehicleModel_findOne k s =
     ((if reachable (vehicleModel s)
       then Inr (find (\<lambda>v. uuid v = k) (documents (vehicleModel s)))
       else Inl StorageFailure),
      s\<lparr> calls := calls s @ [ModelFindOne k] \<rparr>)"

definition vehicleModel_updateOne :: "string \<Rightarrow> Vehicle \<Rightarrow> Registry \<Rightarrow> (error + unit) \<times> Registry" where
  "vehicleModel_updateOne k v s =
     (if reachable (vehicleModel s)
      then (Inr (),
            s\<lparr> vehicleModel := (vehicleModel s)\<lparr> documents := updateFirst k v (documents (vehicleModel s)) \<rparr>,
               calls := calls s @ [ModelUpdateOne k v] \<rparr>)
      else (Inl StorageFailure, s\<lparr> calls := calls s @ [ModelUpdateOne k v] \<rparr>))"

definition getAllVehicles :: "Registry \<Rightarrow> (error + Vehicle list) \<times> Registry" where
  "getAllVehicles s =
     (case cacheService_isEmpty s of
        (True, s1) \<Rightarrow>
          (case vehicleModel_find s1 of
             (Inl e, s2) \<Rightarrow> (Inl e, s2)
           | (Inr vehicles, s2) \<Rightarrow> (Inr vehicles, cacheService_addAll vehicles s2))
      | (False, s1) \<Rightarrow>
          (case cacheService_getAll s1 of (vehicles, s2) \<Rightarrow> (Inr vehicles, s2)))"

definition getVehicle :: "string \<Rightarrow> Registry \<Rightarrow> (error + Vehicle option) \<times> Registry" where
  "getVehicle k s =
     (case cacheService_isEmpty s of
        (True, s1) \<Rightarrow> vehicleModel_findOne k s1
      | (False, s1) \<Rightarrow> (case cacheService_get k s1 of (found, s2) \<Rightarrow> (Inr found, s2)))"

text \<open>
  \<open>book\<close> and \<open>finishRide\<close> assign to the fields of the vehicle they are given, then hand that
  vehicle to the cache and to the store.
\<close>

definition book :: "Vehicle \<Rightarrow> Registry \<Rightarrow> (error + unit) \<times> Registry" where
  "book v s =
     (let v1 = v\<lparr> booked := True \<rparr>;
          s1 = cacheService_set v1 s
      in vehicleModel_updateOne (uuid v1) v1 s1)"


section \<open>Review requests\<close>

text \<open>The review collection behind \<open>reviewModel\<close>; \<open>create\<close> appends the document it is given.\<close>

record ReviewModel =
  reviewDocuments :: "Review list"
  reviewsReachable :: bool

definition reviewModel_create :: "Review \<Rightarrow> ReviewModel \<Rightarrow> (error + unit) \<times> ReviewModel" where
  "reviewModel_create doc m =
     (if reviewsReachable m
      then (Inr (), m\<lparr> reviewDocuments := reviewDocuments m @ [doc] \<rparr>)
      else (Inl StorageFailure, m))"

text \<open>
  \<open>generatedGuid\<close> is the value of \<open>guidService.generateGuid()\<close> and \<open>now\<close> that of
  \<open>new Date()\<close>. The object literal names neither \<open>rate\<close> nor \<open>comment\<close>.
\<close>

definition insertReviewRequest ::
  "string \<Rightarrow> int \<Rightarrow> string \<Rightarrow> string \<Rightarrow> real \<Rightarrow> ReviewModel \<Rightarrow> (error + unit) \<times> ReviewModel" where
  "insertReviewRequest generatedGuid now email vehicleId price' m =
     reviewModel_create
       \<lparr> review_uuid = generatedGuid,
         review_email = email,
         review_vehicleId = vehicleId,
         review_dateOfRide = now,
         review_price = price',
         review_completed = False,
         review_rate = None,
         review_comment = None \<rparr> m"

text \<open>
  The invariant of section 3 of the specification: a rating or a comment is present only when
  the completion flag is true.
\<close>

definition ratedOnlyWhenCompleted :: "Review \<Rightarrow> bool" where
  "ratedOnlyWhenCompleted r =
     (review_completed r \<or> (review_rate r = None \<and> review_comment r = None))"

section \<open>A small fleet, used to run the definitions\<close>

text \<open>
  Three vehicles, one of them booked, a rider at the origin, and a stand-in for the position
  service (the sum of the coordinate differences) and for the review service.
\<close>

definition exampleFleet :: "Vehicle list" where
  "exampleFleet =
     [ \<lparr> latitude = 1, longitude = 1, uuid = ''V2'', brand = ''Opel'', firstName = ''Ana'',
         lastName = ''Ilic'', pricePerKM = Fin 3, startPrice = Fin 4, booked = False \<rparr>,
       \<lparr> latitude = 0, longitude = 1, uuid = ''V3'', brand = ''Fiat'', firstName = ''Iva'',
         lastName = ''Savic'', pricePerKM = Fin 1, startPrice = Fin 1, booked = True \<rparr>,
       \<lparr> latitude = 0, longitude = 0, uuid = ''V1'', brand = ''Audi'', firstName = ''Mila'',
         lastName = ''Peric'', pricePerKM = Fin 2, startPrice = Fin 5, booked = False \<rparr> ]"

definition exampleRider :: Position where
  "exampleRider = \<lparr> latitude = 0, longitude = 0 \<rparr>"

definition exampleDistance :: "Position \<Rightarrow> Vehicle \<Rightarrow> real" where
  "exampleDistance p v = \<bar>latitude p - latitude v\<bar> + \<bar>longitude p - longitude v\<bar>"

definition exampleReviews :: "string \<Rightarrow> error + VehicleReviewDto list" where
  "exampleReviews vehicleId =
     (if vehicleId = ''V1'' then Inr [\<lparr> rate = Some (Fin 4) \<rparr>, \<lparr> rate = Some (Fin 5) \<rparr>]
      else Inr [])"

definition exampleOffers :: "VehicleOffer list" where
  "exampleOffers =
     [ \<lparr> vehicle = exampleFleet ! 2, distanceToDriver = 0, price = Fin 25,
         reviews = [\<lparr> rate = Some (Fin 4) \<rparr>, \<lparr> rate = Some (Fin 5) \<rparr>],
         averageRating = Fin (9 / 2) \<rparr>,
       \<lparr> vehicle = exampleFleet ! 0, distanceToDriver = 2, price = Fin 34,
         reviews = [], averageRating = Fin 0 \<rparr> ]"

text \<open>
  A vehicle whose price per kilometre is the double written \<open>1.1\<close> in the source language,
  and two review services: one that returns a review without a rate, one whose rates have a
  mean that is not a double.
\<close>

definition roundingVehicle :: Vehicle where
  "roundingVehicle =
     \<lparr> latitude = 0, longitude = 0, uuid = ''V4'', brand = ''Seat'', firstName = ''Luka'',
       lastName = ''Maric'', pricePerKM = Fin (2476979795053773 / 2251799813685248),
       startPrice = Fin 0, booked = False \<rparr>"

definition unratedReviews :: "string \<Rightarrow> error + VehicleReviewDto list" where
  "unratedReviews vehicleId = Inr [\<lparr> rate = Some (Fin 4) \<rparr>, \<lparr> rate = None \<rparr>]"

definition thirdsReviews :: "string \<Rightarrow> error + VehicleReviewDto list" where
  "thirdsReviews vehicleId =
     Inr [\<lparr> rate = Some (Fin 5) \<rparr>, \<lparr> rate = Some (Fin 5) \<rparr>, \<lparr> rate = Some (Fin 4) \<rparr>]"

definition exampleUnloaded :: Registry where
  "exampleUnloaded =
     \<lparr> cacheService = None,
       vehicleModel = \<lparr> documents = exampleFleet, reachable = True \<rparr>,
       calls = [] \<rparr>"

definition exampleLoaded :: Registry where
  "exampleLoaded =
     \<lparr> cacheService = Some (map (\<lambda>v. (uuid v, v)) exampleFleet),
       vehicleModel = \<lparr> documents = exampleFleet, reachable = True \<rparr>,
       calls = [] \<rparr>"

definition exampleReviewModel :: ReviewModel where
  "exampleReviewModel = \<lparr> reviewDocuments = [], reviewsReachable = True \<rparr>"

section \<open>The sort\<close>

lemma mset_insertBy: "mset (insertBy cmp x xs) = add_mset x (mset xs)"
  by (induction xs) auto

lemma mset_array_sort: "mset (array_sort cmp xs) = mset xs"
  unfolding array_sort_def by (induction xs) (auto simp: mset_insertBy)

lemma set_insertBy: "set (insertBy cmp x xs) = insert x (set xs)"
  by (induction xs) auto

text \<open>With the comparator \<open>a.distance - b.distance\<close> the result is ordered by distance.\<close>

lemma sorted_insertBy:
  "sorted (map f xs) \<Longrightarrow> sorted (map f (insertBy (\<lambda>a b. f a - f b) x xs))"
  by (induction xs) (fastforce simp: set_insertBy)+

lemma sorted_array_sort: "sorted (map f (array_sort (\<lambda>a b. f a - f b) xs))"
  unfolding array_sort_def by (induction xs) (auto simp: sorted_insertBy)

lemma sorted_vehicles:
  "mset (map vd_vehicle (array_sort cmp (map (\<lambda>v. \<lparr> vd_vehicle = v, distance = f v \<rparr>) vs)))
   = mset vs"
  by (simp add: mset_array_sort multiset.map_comp comp_def)

lemma length_filter_mset: "length (filter P xs) = size (filter_mset P (mset xs))"
  by (simp flip: mset_filter)

lemma unbooked_sorted:
  "length (filter (\<lambda>vd. \<not> booked (vd_vehicle vd))
       (array_sort cmp (map (\<lambda>v. \<lparr> vd_vehicle = v, distance = f v \<rparr>) vs)))
   = length (filter (\<lambda>v. \<not> booked v) vs)"
proof -
  let ?s = "array_sort cmp (map (\<lambda>v. \<lparr> vd_vehicle = v, distance = f v \<rparr>) vs)"
  have "length (filter (\<lambda>vd. \<not> booked (vd_vehicle vd)) ?s)
        = length (filter (\<lambda>v. \<not> booked v) (map vd_vehicle ?s))"
    by (simp add: filter_map comp_def)
  also have "\<dots> = size (filter_mset (\<lambda>v. \<not> booked v) (mset (map vd_vehicle ?s)))"
    by (rule length_filter_mset)
  also have "\<dots> = size (filter_mset (\<lambda>v. \<not> booked v) (mset vs))"
    by (simp only: sorted_vehicles)
  also have "\<dots> = length (filter (\<lambda>v. \<not> booked v) vs)"
    by (rule length_filter_mset[symmetric])
  finally show ?thesis .
qed

section \<open>The average\<close>

text \<open>When every review carries a rate, the score is the left-to-right sum of the rates.\<close>

lemma foldl_score:
  "map rate rs = map Some xs \<Longrightarrow>
   foldl (\<lambda>score review. jsAdd score (rateOperand review)) s rs = foldl jsAdd s xs"
proof (induction rs arbitrary: xs s)
  case Nil
  then show ?case by simp
next
  case (Cons r rs)
  then obtain y ys where xs: "xs = y # ys" "rate r = Some y" "map rate rs = map Some ys"
    by (cases xs) auto
  then show ?case using Cons.IH[of ys "jsAdd s y"] by (simp add: rateOperand_def)
qed

lemma averageRatingOf_rated:
  assumes "map rate rs = map Some xs"
  shows "averageRatingOf rs =
           (if xs = [] then Fin 0 else jsDiv (foldl jsAdd (Fin 0) xs) (lengthNumber xs))"
proof -
  have len: "length rs = length xs"
    using assms by (rule map_eq_imp_length_eq)
  then have "lengthNumber rs = lengthNumber xs"
    by (simp add: lengthNumber_def)
  then show ?thesis
    using len by (simp add: averageRatingOf_def foldl_score[OF assms])
qed

lemma pushedOffer_average:
  "vehicle (pushedOffer d vd rs) = vd_vehicle vd \<and> reviews (pushedOffer d vd rs) = rs
   \<and> (\<forall>xs. map rate rs = map Some xs \<longrightarrow>
         averageRating (pushedOffer d vd rs) =
           (if xs = [] then Fin 0 else jsDiv (foldl jsAdd (Fin 0) xs) (lengthNumber xs)))"
proof (intro conjI allI impI)
  fix xs
  assume "map rate rs = map Some xs"
  then have "averageRatingOf rs =
               (if xs = [] then Fin 0 else jsDiv (foldl jsAdd (Fin 0) xs) (lengthNumber xs))"
    by (rule averageRatingOf_rated)
  then show "averageRating (pushedOffer d vd rs) =
               (if xs = [] then Fin 0 else jsDiv (foldl jsAdd (Fin 0) xs) (lengthNumber xs))"
    by (simp add: pushedOffer_def)
qed (simp_all add: pushedOffer_def)

text \<open>The operations at the numbers of the examples.\<close>

lemma example_price_V1: "jsAdd (jsMul (Fin 10) (Fin 2)) (Fin 5) = Fin 25"
  by code_simp

lemma example_price_V2: "jsAdd (jsMul (Fin 10) (Fin 3)) (Fin 4) = Fin 34"
  by code_simp

lemma example_average_V1: "jsDiv (jsAdd (jsAdd (Fin 0) (Fin 4)) (Fin 5)) (Fin 2) = Fin (9 / 2)"
  by code_simp

lemma example_price_rounded:
  "jsAdd (jsMul (Fin (2476979795053773 / 2251799813685248))
                (Fin (2476979795053773 / 2251799813685248))) (Fin 0)
     = Fin (5449355549118301 / 4503599627370496)"
  by code_simp

lemma example_average_unrated: "jsDiv (jsAdd (jsAdd (Fin 0) (Fin 4)) NaN) (Fin 2) = NaN"
  by (simp add: jsAdd_def jsDiv_def)

lemma example_average_rounded:
  "jsDiv (jsAdd (jsAdd (jsAdd (Fin 0) (Fin 5)) (Fin 5)) (Fin 4)) (Fin 3)
     = Fin (5254199565265579 / 1125899906842624)"
  by code_simp

section \<open>The loop\<close>

text \<open>The three ways one iteration can go when the loop as a whole returns offers.\<close>

lemma closestLoop_cases:
  assumes "closestLoop g c d (vd # xs) acc = Inr res"
  obtains (skip) "booked (vd_vehicle vd)" "closestLoop g c d xs acc = Inr res"
  | (break) rs where "\<not> booked (vd_vehicle vd)" "g (uuid (vd_vehicle vd)) = Inr rs"
      "real (Suc (length acc)) = c" "res = acc @ [pushedOffer d vd rs]"
  | (push) rs where "\<not> booked (vd_vehicle vd)" "g (uuid (vd_vehicle vd)) = Inr rs"
      "real (Suc (length acc)) \<noteq> c" "closestLoop g c d xs (acc @ [pushedOffer d vd rs]) = Inr res"
  using assms by (auto simp: Let_def split: if_splits sum.splits)

text \<open>A property of single offers holds of the result when it holds of every pushed offer.\<close>

lemma closestLoop_all:
  assumes "closestLoop g c d xs acc = Inr res"
    and "\<forall>off\<in>set acc. P off"
    and "\<And>vd rs. vd \<in> set xs \<Longrightarrow> \<not> booked (vd_vehicle vd) \<Longrightarrow> g (uuid (vd_vehicle vd)) = Inr rs
           \<Longrightarrow> P (pushedOffer d vd rs)"
  shows "\<forall>off\<in>set res. P off"
  using assms
proof (induction xs arbitrary: acc)
  case Nil
  then show ?case by simp
next
  case (Cons vd xs)
  have later: "P (pushedOffer d v rs)"
    if "v \<in> set xs" "\<not> booked (vd_vehicle v)" "g (uuid (vd_vehicle v)) = Inr rs" for v rs
    using that by (intro Cons.prems(3)) simp_all
  have here: "P (pushedOffer d vd rs)"
    if "\<not> booked (vd_vehicle vd)" "g (uuid (vd_vehicle vd)) = Inr rs" for rs
    using that by (intro Cons.prems(3)) simp_all
  from Cons.prems(1) show ?case
  proof (cases rule: closestLoop_cases)
    case skip
    show ?thesis by (rule Cons.IH[OF skip(2) Cons.prems(2) later])
  next
    case (break rs)
    show ?thesis using Cons.prems(2) here[OF break(1,2)] break(4) by simp
  next
    case (push rs)
    have "\<forall>off\<in>set (acc @ [pushedOffer d vd rs]). P off"
      using Cons.prems(2) here[OF push(1,2)] by simp
    then show ?thesis by (rule Cons.IH[OF push(4) _ later])
  qed
qed

lemma closestLoop_sorted:
  assumes "closestLoop g c d xs acc = Inr res"
    and "sorted (map distanceToDriver acc @ map distance xs)"
  shows "sorted (map distanceToDriver res)"
  using assms
proof (induction xs arbitrary: acc)
  case Nil
  then show ?case by simp
next
  case (Cons vd xs)
  from Cons.prems(1) show ?case
  proof (cases rule: closestLoop_cases)
    case skip
    have "sorted (map distanceToDriver acc @ map distance xs)"
      using Cons.prems(2) by (auto simp: sorted_append)
    then show ?thesis using Cons.IH[OF skip(2)] by simp
  next
    case (break rs)
    then show ?thesis using Cons.prems(2) by (auto simp: sorted_append pushedOffer_def)
  next
    case (push rs)
    have "sorted (map distanceToDriver (acc @ [pushedOffer d vd rs]) @ map distance xs)"
      using Cons.prems(2) by (simp add: pushedOffer_def)
    then show ?thesis using Cons.IH[OF push(4)] by simp
  qed
qed

text \<open>A count of at least one that has not been reached yet bounds the result.\<close>

lemma closestLoop_length:
  assumes "closestLoop g (real n) d xs acc = Inr res"
    and "length acc < n"
  shows "length res = min n (length acc + length (filter (\<lambda>vd. \<not> booked (vd_vehicle vd)) xs))"
  using assms
proof (induction xs arbitrary: acc)
  case Nil
  then show ?case by simp
next
  case (Cons vd xs)
  from Cons.prems(1) show ?case
  proof (cases rule: closestLoop_cases)
    case skip
    then show ?thesis using Cons.IH[OF skip(2)] Cons.prems(2) by simp
  next
    case (break rs)
    then show ?thesis by simp
  next
    case (push rs)
    then have "length (acc @ [pushedOffer d vd rs]) < n" using Cons.prems(2) by simp
    then show ?thesis using Cons.IH[OF push(4)] push(1) by simp
  qed
qed

text \<open>The length after a push is at least one, so a count of zero or less never stops the loop.\<close>

lemma closestLoop_unbounded:
  assumes "closestLoop g c d xs acc = Inr res"
    and "c \<le> 0"
  shows "map vehicle res = map vehicle acc @ filter (\<lambda>v. \<not> booked v) (map vd_vehicle xs)"
  using assms
proof (induction xs arbitrary: acc)
  case Nil
  then show ?case by simp
next
  case (Cons vd xs)
  from Cons.prems(1) show ?case
  proof (cases rule: closestLoop_cases)
    case skip
    then show ?thesis using Cons.IH[OF skip(2)] Cons.prems(2) by simp
  next
    case (break rs)
    then show ?thesis using Cons.prems(2) by simp
  next
    case (push rs)
    then show ?thesis using Cons.IH[OF push(4)] Cons.prems(2) by (simp add: pushedOffer_def)
  qed
qed

lemma closestLoop_succeeds:
  assumes "\<forall>vd\<in>set xs. \<not> booked (vd_vehicle vd) \<longrightarrow> (\<exists>rs. g (uuid (vd_vehicle vd)) = Inr rs)"
  shows "\<exists>res. closestLoop g c d xs acc = Inr res"
  using assms
proof (induction xs arbitrary: acc)
  case Nil
  then show ?case by simp
next
  case (Cons vd xs)
  then show ?case by (auto simp: Let_def)
qed

section \<open>\<open>findClosestVehicles\<close> as a whole\<close>

lemma findClosestVehicles_loop:
  "findClosestVehicles calculateDistance getVehicleReviews userPosition vehicles c d =
     closestLoop getVehicleReviews c d
       (array_sort (\<lambda>a b. distance a - distance b)
          (map (\<lambda>v. \<lparr> vd_vehicle = v, distance = calculateDistance userPosition v \<rparr>) vehicles)) []"
  by (simp add: findClosestVehicles_def)

text \<open>The call returns offers whenever the review lookups of the unbooked vehicles do.\<close>

lemma findClosestVehicles_succeeds:
  assumes "\<forall>v\<in>set vehicles. \<not> booked v \<longrightarrow> (\<exists>rs. getVehicleReviews (uuid v) = Inr rs)"
  shows "\<exists>offers. findClosestVehicles calculateDistance getVehicleReviews userPosition vehicles c d
             = Inr offers"
proof -
  let ?s = "array_sort (\<lambda>a b. distance a - distance b)
              (map (\<lambda>v. \<lparr> vd_vehicle = v, distance = calculateDistance userPosition v \<rparr>) vehicles)"
  have "set_mset (mset (map vd_vehicle ?s)) = set_mset (mset vehicles)"
    by (simp only: sorted_vehicles)
  then have "vd_vehicle ` set ?s = set vehicles"
    by simp
  then have "\<forall>vd\<in>set ?s. \<not> booked (vd_vehicle vd) \<longrightarrow>
               (\<exists>rs. getVehicleReviews (uuid (vd_vehicle vd)) = Inr rs)"
    using assms by blast
  then show ?thesis
    unfolding findClosestVehicles_loop by (rule closestLoop_succeeds)
qed

text \<open>For a count of at least one the result has the length the documentation promises.\<close>

lemma findClosestVehicles_length_positive_count:
  assumes "findClosestVehicles calculateDistance getVehicleReviews userPosition vehicles (real n) d
             = Inr offers"
    and "1 \<le> n"
  shows "length offers = min n (length (filter (\<lambda>v. \<not> booked v) vehicles))"
proof -
  have "length offers = min n (length ([] :: VehicleOffer list) +
          length (filter (\<lambda>vd. \<not> booked (vd_vehicle vd))
            (array_sort (\<lambda>a b. distance a - distance b)
              (map (\<lambda>v. \<lparr> vd_vehicle = v, distance = calculateDistance userPosition v \<rparr>) vehicles))))"
    using assms by (intro closestLoop_length) (simp_all add: findClosestVehicles_loop)
  then show ?thesis by (simp only: unbooked_sorted list.size add_0)
qed

lemmas example_defs = findClosestVehicles_def array_sort_def exampleFleet_def exampleRider_def
  exampleDistance_def exampleReviews_def exampleOffers_def pushedOffer_def averageRatingOf_def
  rateOperand_def lengthNumber_def example_price_V1 example_price_V2 example_average_V1

lemma example_count_one:
  "findClosestVehicles exampleDistance exampleReviews exampleRider exampleFleet 1 (Fin 10)
     = Inr (take 1 exampleOffers)"
  by (simp add: example_defs)

lemma example_count_two:
  "findClosestVehicles exampleDistance exampleReviews exampleRider exampleFleet 2 (Fin 10)
     = Inr exampleOffers"
  by (simp add: example_defs)

lemma example_count_three:
  "findClosestVehicles exampleDistance exampleReviews exampleRider exampleFleet 3 (Fin 10)
     = Inr exampleOffers"
  by (simp add: example_defs)

lemma example_count_negative:
  "findClosestVehicles exampleDistance exampleReviews exampleRider exampleFleet (- 1) (Fin 10)
     = Inr exampleOffers"
  by (simp add: example_defs)

section \<open>The cache and the registry\<close>

lemmas registry_defs = cacheService_isEmpty_def cacheService_addAll_def cacheService_getAll_def
  cacheService_get_def cacheService_set_def vehicleModel_find_def vehicleModel_findOne_def
  vehicleModel_updateOne_def

lemma cache_get_set: "cache_get (uuid v) (cache_set v c) = Some v"
  by (simp add: cache_get_def cache_set_def cache_entries_def update_conv')

lemma cache_addAll_entries:
  "distinct (map uuid vs) \<Longrightarrow> set (map uuid vs) \<inter> fst ` set es = {} \<Longrightarrow>
   fold (\<lambda>v es. AList.update (uuid v) v es) vs es = es @ map (\<lambda>v. (uuid v, v)) vs"
proof (induction vs arbitrary: es)
  case Nil
  then show ?case by simp
next
  case (Cons v vs)
  have fresh: "uuid v \<notin> fst ` set es" using Cons.prems(2) by auto
  then have upd: "AList.update (uuid v) v es = es @ [(uuid v, v)]"
    by (induction es) auto
  have "fold (\<lambda>v es. AList.update (uuid v) v es) vs (es @ [(uuid v, v)])
        = (es @ [(uuid v, v)]) @ map (\<lambda>v. (uuid v, v)) vs"
    using Cons.prems by (intro Cons.IH) auto
  then show ?case by (simp add: upd)
qed

text \<open>A fleet with distinct identifiers, loaded into a cache never loaded, is read back as it is.\<close>

lemma cache_getAll_addAll:
  "distinct (map uuid vs) \<Longrightarrow> cache_getAll (cache_addAll vs None) = vs"
  by (simp add: cache_getAll_def cache_addAll_def cache_entries_def cache_addAll_entries comp_def)

section \<open>The claims about matching\<close>

text \<open>
  Claim C1. The list returned by \<open>findClosestVehicles\<close> has length
  \<open>min(N, number of candidates with booked = false)\<close> for every \<open>N \<ge> 0\<close>, so \<open>N = 0\<close> gives an
  empty list. The code compares the length with the count only after a push, when the
  length is already one: on the example fleet a count of zero returns both unbooked vehicles,
  where the minimum is zero. (For \<open>N \<ge> 1\<close> the length is as claimed:
  \<open>findClosestVehicles_length_positive_count\<close>.)
\<close>

theorem findClosestVehicles_count_zero_returns_all:
  "findClosestVehicles exampleDistance exampleReviews exampleRider exampleFleet 0 (Fin 10)
     = Inr exampleOffers
   \<and> length exampleOffers = 2
   \<and> min 0 (length (filter (\<lambda>v. \<not> booked v) exampleFleet)) = 0"
  by (simp add: example_defs)

text \<open>
  Claim C2. No offer returned by \<open>findClosestVehicles\<close> contains a vehicle whose booked flag
  is true, whatever the candidates and the count.
\<close>

theorem findClosestVehicles_never_booked:
  assumes "findClosestVehicles calculateDistance getVehicleReviews userPosition vehicles c d
             = Inr offers"
  shows "\<forall>off\<in>set offers. \<not> booked (vehicle off)"
proof (rule closestLoop_all)
  show "closestLoop getVehicleReviews c d
          (array_sort (\<lambda>a b. distance a - distance b)
             (map (\<lambda>v. \<lparr> vd_vehicle = v, distance = calculateDistance userPosition v \<rparr>) vehicles)) []
        = Inr offers"
    using assms by (simp only: findClosestVehicles_loop)
qed (simp_all add: pushedOffer_def)

theorem findClosestVehicles_never_booked_witness:
  "findClosestVehicles exampleDistance exampleReviews exampleRider exampleFleet 3 (Fin 10)
     = Inr exampleOffers
   \<and> map (\<lambda>off. booked (vehicle off)) exampleOffers = [False, False]"
  using example_count_three findClosestVehicles_never_booked[OF example_count_three]
  by (simp add: exampleOffers_def)

text \<open>
  Claim C3. For every vehicle that passes the booked filter, the \<open>averageRating\<close> of its offer
  is the sum of the ratings divided by the number of rated reviews, and 0 when the vehicle
  has no rated reviews. As stated this fails twice. A returned review without a rate is not
  left out: the sum becomes \<open>NaN\<close>, where the claim gives \<open>4 / 1\<close>. And the sum and the
  quotient are doubles: the rates 5, 5, 4 give the double next to \<open>14 / 3\<close>, not \<open>14 / 3\<close>.
\<close>

theorem findClosestVehicles_averageRating_counterexample:
  "findClosestVehicles exampleDistance unratedReviews exampleRider [exampleFleet ! 2] 1 (Fin 10)
     = Inr [\<lparr> vehicle = exampleFleet ! 2, distanceToDriver = 0, price = Fin 25,
              reviews = [\<lparr> rate = Some (Fin 4) \<rparr>, \<lparr> rate = None \<rparr>],
              averageRating = NaN \<rparr>]
   \<and> NaN \<noteq> Fin (4 / 1)
   \<and> findClosestVehicles exampleDistance thirdsReviews exampleRider [exampleFleet ! 2] 1 (Fin 10)
     = Inr [\<lparr> vehicle = exampleFleet ! 2, distanceToDriver = 0, price = Fin 25,
              reviews = [\<lparr> rate = Some (Fin 5) \<rparr>, \<lparr> rate = Some (Fin 5) \<rparr>,
                         \<lparr> rate = Some (Fin 4) \<rparr>],
              averageRating = Fin (5254199565265579 / 1125899906842624) \<rparr>]
   \<and> Fin (5254199565265579 / 1125899906842624) \<noteq> Fin ((5 + 5 + 4) / 3)"
  by (simp add: findClosestVehicles_def array_sort_def exampleFleet_def exampleRider_def
      exampleDistance_def unratedReviews_def thirdsReviews_def pushedOffer_def
      averageRatingOf_def rateOperand_def lengthNumber_def example_price_V1
      example_average_unrated example_average_rounded)

text \<open>
  Claim C3, amended. Every offer carries the reviews that the review service returned for
  its vehicle. When each of them has a rate, \<open>averageRating\<close> is 0 for no reviews, and
  otherwise the rates added from 0 in their order and divided by the number of reviews,
  every addition and the division rounded to the nearest double.
\<close>

theorem findClosestVehicles_averageRating:
  assumes "findClosestVehicles calculateDistance getVehicleReviews userPosition vehicles c d
             = Inr offers"
  shows "\<forall>off\<in>set offers.
           getVehicleReviews (uuid (vehicle off)) = Inr (reviews off)
           \<and> (\<forall>xs. map rate (reviews off) = map Some xs \<longrightarrow>
                 averageRating off =
                   (if xs = [] then Fin 0
                    else jsDiv (foldl jsAdd (Fin 0) xs) (lengthNumber xs)))"
proof (rule closestLoop_all)
  show "closestLoop getVehicleReviews c d
          (array_sort (\<lambda>a b. distance a - distance b)
             (map (\<lambda>v. \<lparr> vd_vehicle = v, distance = calculateDistance userPosition v \<rparr>) vehicles)) []
        = Inr offers"
    using assms by (simp only: findClosestVehicles_loop)
next
  fix vd :: VehicleDistance and rs
  assume "getVehicleReviews (uuid (vd_vehicle vd)) = Inr rs"
  then show "getVehicleReviews (uuid (vehicle (pushedOffer d vd rs)))
               = Inr (reviews (pushedOffer d vd rs))
             \<and> (\<forall>xs. map rate (reviews (pushedOffer d vd rs)) = map Some xs \<longrightarrow>
                   averageRating (pushedOffer d vd rs) =
                     (if xs = [] then Fin 0
                      else jsDiv (foldl jsAdd (Fin 0) xs) (lengthNumber xs)))"
    by (simp add: pushedOffer_average)
qed simp

theorem findClosestVehicles_averageRating_witness:
  "findClosestVehicles exampleDistance exampleReviews exampleRider exampleFleet 2 (Fin 10)
     = Inr exampleOffers
   \<and> exampleReviews (uuid (vehicle (exampleOffers ! 0))) = Inr (reviews (exampleOffers ! 0))
   \<and> map rate (reviews (exampleOffers ! 0)) = map Some [Fin 4, Fin 5]
   \<and> averageRating (exampleOffers ! 0)
       = jsDiv (foldl jsAdd (Fin 0) [Fin 4, Fin 5]) (lengthNumber [Fin 4, Fin 5 :: number])
   \<and> averageRating (exampleOffers ! 0) = Fin (9 / 2)
   \<and> map rate (reviews (exampleOffers ! 1)) = map Some []
   \<and> averageRating (exampleOffers ! 1) = Fin 0"
proof -
  note all = findClosestVehicles_averageRating[OF example_count_two]
  have first: "exampleOffers ! 0 \<in> set exampleOffers"
    and second: "exampleOffers ! 1 \<in> set exampleOffers"
    by (simp_all add: exampleOffers_def)
  have rated: "map rate (reviews (exampleOffers ! 0)) = map Some [Fin 4, Fin 5]"
    and none: "map rate (reviews (exampleOffers ! 1)) = map Some []"
    by (simp_all add: exampleOffers_def)
  have lookup: "exampleReviews (uuid (vehicle (exampleOffers ! 0))) = Inr (reviews (exampleOffers ! 0))"
    using all first by blast
  have "\<forall>xs. map rate (reviews (exampleOffers ! 0)) = map Some xs \<longrightarrow>
          averageRating (exampleOffers ! 0) =
            (if xs = [] then Fin 0 else jsDiv (foldl jsAdd (Fin 0) xs) (lengthNumber xs))"
    using all first by blast
  then have mean: "averageRating (exampleOffers ! 0)
       = jsDiv (foldl jsAdd (Fin 0) [Fin 4, Fin 5]) (lengthNumber [Fin 4, Fin 5 :: number])"
    using rated by fastforce
  have "\<forall>xs. map rate (reviews (exampleOffers ! 1)) = map Some xs \<longrightarrow>
          averageRating (exampleOffers ! 1) =
            (if xs = [] then Fin 0 else jsDiv (foldl jsAdd (Fin 0) xs) (lengthNumber xs))"
    using all second by blast
  then have zero: "averageRating (exampleOffers ! 1) = Fin 0"
    using none by fastforce
  have half: "averageRating (exampleOffers ! 0) = Fin (9 / 2)"
    by (simp add: exampleOffers_def)
  show ?thesis
    using example_count_two lookup rated mean half none zero by (intro conjI)
qed

text \<open>
  Claim C4. In the list returned by \<open>findClosestVehicles\<close> the values of \<open>distanceToDriver\<close>
  never decrease from one offer to the next.
\<close>

theorem findClosestVehicles_distance_order:
  assumes "findClosestVehicles calculateDistance getVehicleReviews userPosition vehicles c d
             = Inr offers"
  shows "sorted (map distanceToDriver offers)"
proof (rule closestLoop_sorted)
  show "closestLoop getVehicleReviews c d
          (array_sort (\<lambda>a b. distance a - distance b)
             (map (\<lambda>v. \<lparr> vd_vehicle = v, distance = calculateDistance userPosition v \<rparr>) vehicles)) []
        = Inr offers"
    using assms by (simp only: findClosestVehicles_loop)
  show "sorted (map distanceToDriver [] @ map distance
          (array_sort (\<lambda>a b. distance a - distance b)
             (map (\<lambda>v. \<lparr> vd_vehicle = v, distance = calculateDistance userPosition v \<rparr>) vehicles)))"
    by (simp add: sorted_array_sort)
qed

theorem findClosestVehicles_distance_order_witness:
  "findClosestVehicles exampleDistance exampleReviews exampleRider exampleFleet 2 (Fin 10)
     = Inr exampleOffers
   \<and> sorted (map distanceToDriver exampleOffers)
   \<and> map distanceToDriver exampleOffers = [0, 2]"
  using example_count_two findClosestVehicles_distance_order[OF example_count_two]
  by (simp add: exampleOffers_def)

text \<open>
  Claim C5. The price of every offer equals \<open>distanceToDestination\<close> times the vehicle's price
  per kilometre plus the vehicle's start price. As an equation between exact values this
  fails: the product and the sum are doubles, and for a distance and a price per kilometre of
  1.1 and a start price of 0 the code returns 1.2100000000000002, which is not the exact
  product.
\<close>

theorem findClosestVehicles_price_counterexample:
  "findClosestVehicles exampleDistance exampleReviews exampleRider [roundingVehicle] 1
       (Fin (2476979795053773 / 2251799813685248))
     = Inr [\<lparr> vehicle = roundingVehicle, distanceToDriver = 0,
              price = Fin (5449355549118301 / 4503599627370496),
              reviews = [], averageRating = Fin 0 \<rparr>]
   \<and> Fin (5449355549118301 / 4503599627370496)
       \<noteq> Fin (2476979795053773 / 2251799813685248 * (2476979795053773 / 2251799813685248) + 0)"
  by (simp add: findClosestVehicles_def array_sort_def roundingVehicle_def exampleRider_def
      exampleDistance_def exampleReviews_def pushedOffer_def averageRatingOf_def
      example_price_rounded)

text \<open>
  Claim C5, amended. The price of every offer is \<open>distanceToDestination\<close> times the vehicle's
  price per kilometre plus the vehicle's start price in double arithmetic: the product
  rounded to the nearest double, then the sum rounded to the nearest double.
\<close>

theorem findClosestVehicles_price:
  assumes "findClosestVehicles calculateDistance getVehicleReviews userPosition vehicles c d
             = Inr offers"
  shows "\<forall>off\<in>set offers.
           price off = jsAdd (jsMul d (pricePerKM (vehicle off))) (startPrice (vehicle off))"
proof (rule closestLoop_all)
  show "closestLoop getVehicleReviews c d
          (array_sort (\<lambda>a b. distance a - distance b)
             (map (\<lambda>v. \<lparr> vd_vehicle = v, distance = calculateDistance userPosition v \<rparr>) vehicles)) []
        = Inr offers"
    using assms by (simp only: findClosestVehicles_loop)
qed (simp_all add: pushedOffer_def)

theorem findClosestVehicles_price_witness:
  "findClosestVehicles exampleDistance exampleReviews exampleRider exampleFleet 1 (Fin 10)
     = Inr (take 1 exampleOffers)
   \<and> map (\<lambda>off. jsAdd (jsMul (Fin 10) (pricePerKM (vehicle off))) (startPrice (vehicle off)))
         (take 1 exampleOffers) = [Fin 25]
   \<and> map price (take 1 exampleOffers) = [Fin 25]"
  using example_count_one findClosestVehicles_price[OF example_count_one]
  by (simp add: exampleOffers_def)

text \<open>
  Claim C10. For a count of zero or less, \<open>findClosestVehicles\<close> returns an offer for every
  unbooked candidate: the loop stops only when the length equals the count, and the length
  is at least one when it is compared.
\<close>

theorem findClosestVehicles_nonpositive_count:
  assumes "c \<le> 0"
    and "findClosestVehicles calculateDistance getVehicleReviews userPosition vehicles c d
             = Inr offers"
  shows "mset (map vehicle offers) = mset (filter (\<lambda>v. \<not> booked v) vehicles)"
proof -
  let ?s = "array_sort (\<lambda>a b. distance a - distance b)
              (map (\<lambda>v. \<lparr> vd_vehicle = v, distance = calculateDistance userPosition v \<rparr>) vehicles)"
  have "closestLoop getVehicleReviews c d ?s [] = Inr offers"
    using assms(2) by (simp only: findClosestVehicles_loop)
  then have "map vehicle offers =
               map vehicle ([] :: VehicleOffer list) @ filter (\<lambda>v. \<not> booked v) (map vd_vehicle ?s)"
    using assms(1) by (rule closestLoop_unbounded)
  then have "mset (map vehicle offers) = filter_mset (\<lambda>v. \<not> booked v) (mset (map vd_vehicle ?s))"
    by (simp only: list.map append_Nil mset_filter)
  also have "\<dots> = filter_mset (\<lambda>v. \<not> booked v) (mset vehicles)"
    by (simp only: sorted_vehicles)
  finally show ?thesis by (simp only: mset_filter)
qed

theorem findClosestVehicles_nonpositive_count_witness:
  "(- 1 :: real) \<le> 0
   \<and> findClosestVehicles exampleDistance exampleReviews exampleRider exampleFleet (- 1) (Fin 10)
       = Inr exampleOffers
   \<and> mset (map vehicle exampleOffers) = mset (filter (\<lambda>v. \<not> booked v) exampleFleet)
   \<and> length exampleOffers = 2"
proof -
  have neg: "(- 1 :: real) \<le> 0" by simp
  have len: "length exampleOffers = 2" by (simp add: exampleOffers_def)
  show ?thesis
    using neg example_count_negative len
      findClosestVehicles_nonpositive_count[OF neg example_count_negative]
    by (intro conjI)
qed

section \<open>The claims about the registry\<close>

text \<open>
  Claim C6. When the cache reports empty, \<open>getAllVehicles\<close> fetches the fleet from storage,
  hands exactly that list to \<open>addAll\<close> and returns it; when the cache is loaded it returns
  what \<open>getAll\<close> gives and makes no call on the storage. The calls are the ones appended to
  the log, and nothing else of the state changes.
\<close>

theorem getAllVehicles_cache_fill:
  "(cache_isEmpty (cacheService s) \<and> reachable (vehicleModel s) \<longrightarrow>
      getAllVehicles s =
        (Inr (documents (vehicleModel s)),
         s\<lparr> cacheService := cache_addAll (documents (vehicleModel s)) (cacheService s),
            calls := calls s @ [CacheIsEmpty, ModelFind, CacheAddAll (documents (vehicleModel s))] \<rparr>))
   \<and> (\<not> cache_isEmpty (cacheService s) \<longrightarrow>
      getAllVehicles s =
        (Inr (cache_getAll (cacheService s)),
         s\<lparr> calls := calls s @ [CacheIsEmpty, CacheGetAll] \<rparr>))"
  by (simp add: getAllVehicles_def registry_defs)

theorem getAllVehicles_cache_fill_witness:
  "cache_isEmpty (cacheService exampleUnloaded) \<and> reachable (vehicleModel exampleUnloaded)
   \<and> getAllVehicles exampleUnloaded =
       (Inr exampleFleet,
        \<lparr> cacheService = cache_addAll exampleFleet None,
          vehicleModel = \<lparr> documents = exampleFleet, reachable = True \<rparr>,
          calls = [CacheIsEmpty, ModelFind, CacheAddAll exampleFleet] \<rparr>)
   \<and> \<not> cache_isEmpty (cacheService exampleLoaded)
   \<and> getAllVehicles exampleLoaded =
       (Inr exampleFleet, exampleLoaded\<lparr> calls := [CacheIsEmpty, CacheGetAll] \<rparr>)"
  using getAllVehicles_cache_fill[of exampleUnloaded] getAllVehicles_cache_fill[of exampleLoaded]
  by (simp add: exampleUnloaded_def exampleLoaded_def cache_isEmpty_def cache_getAll_def
      cache_entries_def comp_def)

text \<open>
  Claim C7. After \<open>book(v)\<close> has completed, and with the cache loaded, \<open>getVehicle(v.uuid)\<close>
  returns a vehicle with \<open>booked = true\<close>; it asks the cache only (\<open>isEmpty\<close>, then \<open>get\<close>)
  and makes no call on the storage.
\<close>

theorem book_then_getVehicle:
  assumes "book v s = (Inr (), s1)"
    and "\<not> cache_isEmpty (cacheService s1)"
  shows "\<exists>found. getVehicle (uuid v) s1 =
           (Inr (Some found), s1\<lparr> calls := calls s1 @ [CacheIsEmpty, CacheGet (uuid v)] \<rparr>)
         \<and> booked found \<and> found = v\<lparr> booked := True \<rparr>"
proof -
  have "cacheService s1 = cache_set (v\<lparr> booked := True \<rparr>) (cacheService s)"
    using assms(1) by (auto simp: book_def registry_defs Let_def split: if_splits)
  then have "cache_get (uuid v) (cacheService s1) = Some (v\<lparr> booked := True \<rparr>)"
    using cache_get_set[of "v\<lparr> booked := True \<rparr>"] by simp
  then show ?thesis
    using assms(2) by (simp add: getVehicle_def registry_defs)
qed

theorem book_then_getVehicle_witness:
  "book (exampleFleet ! 0) exampleLoaded =
     (Inr (), snd (book (exampleFleet ! 0) exampleLoaded))
   \<and> \<not> cache_isEmpty (cacheService (snd (book (exampleFleet ! 0) exampleLoaded)))
   \<and> (\<exists>found. getVehicle ''V2'' (snd (book (exampleFleet ! 0) exampleLoaded)) =
           (Inr (Some found),
            (snd (book (exampleFleet ! 0) exampleLoaded))
              \<lparr> calls := [CacheSet ((exampleFleet ! 0)\<lparr> booked := True \<rparr>),
                          ModelUpdateOne ''V2'' ((exampleFleet ! 0)\<lparr> booked := True \<rparr>),
                          CacheIsEmpty, CacheGet ''V2''] \<rparr>)
         \<and> booked found \<and> found = (exampleFleet ! 0)\<lparr> booked := True \<rparr>)"
proof -
  have b: "book (exampleFleet ! 0) exampleLoaded
             = (Inr (), snd (book (exampleFleet ! 0) exampleLoaded))"
    by (simp add: book_def registry_defs exampleLoaded_def Let_def)
  have c: "\<not> cache_isEmpty (cacheService (snd (book (exampleFleet ! 0) exampleLoaded)))"
    by (simp add: book_def registry_defs exampleLoaded_def Let_def cache_isEmpty_def cache_set_def)
  have u: "uuid (exampleFleet ! 0) = ''V2''" by (simp add: exampleFleet_def)
  have k: "calls (snd (book (exampleFleet ! 0) exampleLoaded)) =
             [CacheSet ((exampleFleet ! 0)\<lparr> booked := True \<rparr>),
              ModelUpdateOne ''V2'' ((exampleFleet ! 0)\<lparr> booked := True \<rparr>)]"
    by (simp add: book_def registry_defs exampleLoaded_def Let_def u)
  show ?thesis using b c book_then_getVehicle[OF b c] by (simp add: u k)
qed


section \<open>The claim about review requests\<close>

text \<open>
  Claim C9. \<open>insertReviewRequest\<close> creates a review with \<open>completed = false\<close>, without a rating
  and without a comment, so the new review has a rating or a comment only when it is
  completed.
\<close>

theorem insertReviewRequest_pending:
  assumes "reviewsReachable m"
  shows "\<exists>r. insertReviewRequest generatedGuid now email vehicleId p m =
               (Inr (), m\<lparr> reviewDocuments := reviewDocuments m @ [r] \<rparr>)
             \<and> \<not> review_completed r \<and> review_rate r = None \<and> review_comment r = None
             \<and> ratedOnlyWhenCompleted r"
proof (intro exI conjI)
  show "insertReviewRequest generatedGuid now email vehicleId p m =
          (Inr (), m\<lparr> reviewDocuments := reviewDocuments m @
             [\<lparr> review_uuid = generatedGuid, review_email = email, review_vehicleId = vehicleId,
                review_dateOfRide = now, review_price = p, review_completed = False,
                review_rate = None, review_comment = None \<rparr>] \<rparr>)"
    using assms by (simp add: insertReviewRequest_def reviewModel_create_def)
qed (simp_all add: ratedOnlyWhenCompleted_def)

theorem insertReviewRequest_pending_witness:
  "reviewsReachable exampleReviewModel \<and>
   (\<exists>r. insertReviewRequest ''g-1'' 1700000000000 ''rider@example.com'' ''V1'' 25 exampleReviewModel =
               (Inr (), exampleReviewModel\<lparr> reviewDocuments := reviewDocuments exampleReviewModel @ [r] \<rparr>)
             \<and> \<not> review_completed r \<and> review_rate r = None \<and> review_comment r = None
             \<and> ratedOnlyWhenCompleted r)"
  using insertReviewRequest_pending[of exampleReviewModel "''g-1''" 1700000000000
      "''rider@example.com''" "''V1''" 25]
  by (simp add: exampleReviewModel_def)

end
